theory Spec2Isabelle
  imports Main "HOL-Library.Word"
begin

unbundle bit_operations_syntax

section \<open>The PTY allocation program of PtyKit's Cstdlib shim\<close>

text \<open>
  The C under study, \<^verbatim>\<open>Sources/Cstdlib/test.c\<close>:
  \<^verbatim>\<open>
  int main() {
    int fd = posix_openpt(O_RDWR);
    grantpt(fd);
    unlockpt(fd);
    printf("%s\n", ptsname(fd));
  }
  \<close>
  \<^verbatim>\<open>BridgingHeader.h\<close> includes \<^verbatim>\<open>stdlib.h\<close>, \<^verbatim>\<open>fcntl.h\<close> and \<^verbatim>\<open>stdio.h\<close> and declares
  \<^verbatim>\<open>int posix_openpt (int)\<close>, \<^verbatim>\<open>int grantpt (int)\<close>, \<^verbatim>\<open>int unlockpt (int)\<close> and
  \<^verbatim>\<open>char *ptsname (int)\<close>.
\<close>

subsection \<open>C values\<close>

text \<open>A C \<^verbatim>\<open>int\<close> is 32 bits wide; \<open>sint\<close> reads it as signed.\<close>

type_synonym c_int = "32 word"

text \<open>
  A \<^verbatim>\<open>char *\<close> that is either \<^verbatim>\<open>NULL\<close> (\<open>None\<close>) or points to a NUL-terminated string, given
  by its characters before the terminator.
\<close>

type_synonym c_str = "string option"

text \<open>
  The two open-mode constants of the system header \<^verbatim>\<open>fcntl.h\<close> that matter here. Their
  values belong to the platform, not to the repository, so the program takes them as a
  parameter.
\<close>

record fcntl_h =
  O_RDWR :: c_int
  O_NONBLOCK :: c_int

text \<open>The values on Linux (\<^verbatim>\<open>O_NONBLOCK\<close> is octal 04000) and on macOS.\<close>

definition linux_fcntl :: fcntl_h where
  "linux_fcntl = \<lparr>O_RDWR = 2, O_NONBLOCK = 2048\<rparr>"

definition darwin_fcntl :: fcntl_h where
  "darwin_fcntl = \<lparr>O_RDWR = 2, O_NONBLOCK = 4\<rparr>"

definition has_flag :: "c_int \<Rightarrow> c_int \<Rightarrow> bool" where
  "has_flag flags f = (flags AND f = f)"

subsection \<open>The operating system as seen by one run\<close>

text \<open>
  The program is straight-line code that calls each of the four PTY functions once, so
  whatever the operating system does in a run is captured by the four values it hands
  back. Success of \<^verbatim>\<open>posix_openpt\<close> is a non-negative descriptor and failure is \<open>-1\<close>;
  \<^verbatim>\<open>grantpt\<close> and \<^verbatim>\<open>unlockpt\<close> return \<open>0\<close> on success and \<open>-1\<close> on failure; \<^verbatim>\<open>ptsname\<close>
  returns \<^verbatim>\<open>NULL\<close> on failure.
\<close>

record os =
  openpt_ret :: c_int
  grantpt_ret :: c_int
  unlockpt_ret :: c_int
  ptsname_ret :: c_str

text \<open>
  What the C runtime starts a process with. \<^verbatim>\<open>int main()\<close> declares no parameter for
  any of it.
\<close>

record process =
  argv :: "string list"
  environ :: "string list"
  stdin :: string

text \<open>
  The library calls a run can issue, with their arguments. \<open>Close\<close> stands for
  \<^verbatim>\<open>close(fd)\<close>, the one call that gives a descriptor back.
\<close>

datatype call =
    Posix_openpt c_int
  | Grantpt c_int
  | Unlockpt c_int
  | Ptsname c_int
  | Printf string "c_str list"
  | Close c_int

text \<open>The observable state of a run: the bytes on standard output and the calls so far.\<close>

record world =
  stdout :: string
  calls :: "call list"

definition start :: world where
  "start = \<lparr>stdout = [], calls = []\<rparr>"

definition posix_openpt :: "os \<Rightarrow> c_int \<Rightarrow> world \<Rightarrow> c_int \<times> world" where
  "posix_openpt k oflag w = (openpt_ret k, w\<lparr>calls := calls w @ [Posix_openpt oflag]\<rparr>)"

definition grantpt :: "os \<Rightarrow> c_int \<Rightarrow> world \<Rightarrow> c_int \<times> world" where
  "grantpt k fd w = (grantpt_ret k, w\<lparr>calls := calls w @ [Grantpt fd]\<rparr>)"

definition unlockpt :: "os \<Rightarrow> c_int \<Rightarrow> world \<Rightarrow> c_int \<times> world" where
  "unlockpt k fd w = (unlockpt_ret k, w\<lparr>calls := calls w @ [Unlockpt fd]\<rparr>)"

definition ptsname :: "os \<Rightarrow> c_int \<Rightarrow> world \<Rightarrow> c_str \<times> world" where
  "ptsname k fd w = (ptsname_ret k, w\<lparr>calls := calls w @ [Ptsname fd]\<rparr>)"

subsection \<open>Formatted output\<close>

text \<open>
  The expansion of a \<^verbatim>\<open>printf\<close> format, for the one conversion the program uses, \<^verbatim>\<open>%s\<close>:
  it consumes the next argument and writes its characters. The result is \<open>None\<close> where
  the C standard leaves the behaviour undefined: the argument of \<^verbatim>\<open>%s\<close> is \<^verbatim>\<open>NULL\<close> or
  missing. Conversions other than \<^verbatim>\<open>%s\<close> are outside this model and also give \<open>None\<close>.
\<close>

fun format :: "string \<Rightarrow> c_str list \<Rightarrow> string option" where
  "format [] args = Some []"
| "format [c] args = (if c = CHR ''%'' then None else Some [c])"
| "format (c # d # fmt) args =
     (if c = CHR ''%'' then
        (if d = CHR ''s'' then
           (case args of
              Some s # rest \<Rightarrow> map_option (\<lambda>out. s @ out) (format fmt rest)
            | _ \<Rightarrow> None)
         else None)
      else map_option (\<lambda>out. c # out) (format (d # fmt) args))"

text \<open>
  \<^verbatim>\<open>printf\<close>: the call is recorded; with a defined expansion the bytes are appended to
  standard output (\<open>Inr\<close>), otherwise the behaviour is undefined from there on (\<open>Inl\<close>).
\<close>

definition printf :: "string \<Rightarrow> c_str list \<Rightarrow> world \<Rightarrow> world + world" where
  "printf fmt args w =
     (let w' = w\<lparr>calls := calls w @ [Printf fmt args]\<rparr> in
      case format fmt args of
        None \<Rightarrow> Inl w'
      | Some out \<Rightarrow> Inr (w'\<lparr>stdout := stdout w' @ out\<rparr>))"

subsection \<open>The program\<close>

text \<open>
  How a run ends: with an exit status, or in undefined behaviour. Reaching the closing
  brace of \<^verbatim>\<open>main\<close> is \<^verbatim>\<open>return 0\<close>.
\<close>

datatype outcome = Exited c_int | Undefined

text \<open>The format string \<^verbatim>\<open>"%s\n"\<close>.\<close>

definition fmt_s_nl :: string where
  "fmt_s_nl = [CHR ''%'', CHR ''s'', CHR 0x0A]"

definition main :: "fcntl_h \<Rightarrow> os \<Rightarrow> process \<Rightarrow> outcome \<times> world" where
  "main h k p =
     (let (fd, w1) = posix_openpt k (O_RDWR h) start;
          (_, w2) = grantpt k fd w1;
          (_, w3) = unlockpt k fd w2;
          (path, w4) = ptsname k fd w3
      in case printf fmt_s_nl [path] w4 of
           Inl w5 \<Rightarrow> (Undefined, w5)
         | Inr w5 \<Rightarrow> (Exited 0, w5))"

subsection \<open>Observations on a run\<close>

text \<open>The name of the PTY function a call goes to, if it is one.\<close>

fun pty_step :: "call \<Rightarrow> string option" where
  "pty_step (Posix_openpt _) = Some ''posix_openpt''"
| "pty_step (Grantpt _) = Some ''grantpt''"
| "pty_step (Unlockpt _) = Some ''unlockpt''"
| "pty_step (Ptsname _) = Some ''ptsname''"
| "pty_step (Printf _ _) = None"
| "pty_step (Close _) = None"

definition pty_steps :: "call list \<Rightarrow> string list" where
  "pty_steps cs = List.map_filter pty_step cs"

text \<open>The open-mode flag of a \<^verbatim>\<open>posix_openpt\<close> call, and the descriptor given to \<^verbatim>\<open>ptsname\<close>.\<close>

fun openpt_flag :: "call \<Rightarrow> c_int option" where
  "openpt_flag (Posix_openpt oflag) = Some oflag"
| "openpt_flag _ = None"

definition openpt_flags :: "call list \<Rightarrow> c_int list" where
  "openpt_flags cs = List.map_filter openpt_flag cs"

fun ptsname_arg :: "call \<Rightarrow> c_int option" where
  "ptsname_arg (Ptsname fd) = Some fd"
| "ptsname_arg _ = None"

definition ptsname_args :: "call list \<Rightarrow> c_int list" where
  "ptsname_args cs = List.map_filter ptsname_arg cs"

fun is_close :: "call \<Rightarrow> bool" where
  "is_close (Close _) = True"
| "is_close _ = False"

text \<open>
  Descriptor accounting over the calls of a run whose answers are \<open>k\<close>: a successful
  \<^verbatim>\<open>posix_openpt\<close> opens the descriptor it returns, \<^verbatim>\<open>close\<close> gives one back, nothing else
  changes the table.
\<close>

fun track :: "os \<Rightarrow> c_int list \<Rightarrow> call \<Rightarrow> c_int list" where
  "track k fds (Posix_openpt _) =
     (if 0 \<le> sint (openpt_ret k) then openpt_ret k # fds else fds)"
| "track k fds (Close fd) = removeAll fd fds"
| "track k fds _ = fds"

definition open_fds :: "os \<Rightarrow> call list \<Rightarrow> c_int list" where
  "open_fds k cs = foldl (track k) [] cs"

subsection \<open>Concrete runs\<close>

definition proc0 :: process where
  "proc0 = \<lparr>argv = [''test''], environ = [], stdin = []\<rparr>"

definition proc1 :: process where
  "proc1 = \<lparr>argv = [''test'', ''-v''], environ = [''TERM=xterm''], stdin = ''abc''\<rparr>"

text \<open>Everything succeeds: descriptor 3, slave \<^verbatim>\<open>/dev/pts/0\<close>.\<close>

definition run_ok :: os where
  "run_ok = \<lparr>openpt_ret = 3, grantpt_ret = 0, unlockpt_ret = 0,
     ptsname_ret = Some ''/dev/pts/0''\<rparr>"

text \<open>\<^verbatim>\<open>grantpt\<close> fails, the rest succeeds.\<close>

definition run_grant_fails :: os where
  "run_grant_fails = \<lparr>openpt_ret = 3, grantpt_ret = - 1, unlockpt_ret = 0,
     ptsname_ret = Some ''/dev/pts/0''\<rparr>"

text \<open>\<^verbatim>\<open>posix_openpt\<close> fails, and so does every call on the invalid descriptor.\<close>

definition run_open_fails :: os where
  "run_open_fails = \<lparr>openpt_ret = - 1, grantpt_ret = - 1, unlockpt_ret = - 1,
     ptsname_ret = None\<rparr>"

section \<open>Properties\<close>

subsection \<open>What every run does\<close>

lemma main_calls:
  "calls (snd (main h k p)) =
     [Posix_openpt (O_RDWR h), Grantpt (openpt_ret k), Unlockpt (openpt_ret k),
      Ptsname (openpt_ret k), Printf fmt_s_nl [ptsname_ret k]]"
  by (simp add: main_def posix_openpt_def grantpt_def unlockpt_def ptsname_def printf_def
      start_def Let_def split: option.split)

lemma main_outcome:
  "fst (main h k p) = (case ptsname_ret k of None \<Rightarrow> Undefined | Some s \<Rightarrow> Exited 0)"
  by (simp add: main_def posix_openpt_def grantpt_def unlockpt_def ptsname_def printf_def
      start_def fmt_s_nl_def Let_def split: option.split)

lemma main_stdout:
  "stdout (snd (main h k p)) =
     (case ptsname_ret k of None \<Rightarrow> [] | Some s \<Rightarrow> s @ [CHR 0x0A])"
  by (simp add: main_def posix_openpt_def grantpt_def unlockpt_def ptsname_def printf_def
      start_def fmt_s_nl_def Let_def split: option.split)

text \<open>The answers of \<^verbatim>\<open>grantpt\<close> and \<^verbatim>\<open>unlockpt\<close> are discarded, and so is the process context.\<close>

lemma main_cong:
  assumes "openpt_ret k = openpt_ret k'" and "ptsname_ret k = ptsname_ret k'"
  shows "main h k p = main h k' p'"
  using assms
  by (simp add: main_def posix_openpt_def grantpt_def unlockpt_def ptsname_def)

lemma main_open_fds:
  "open_fds k (calls (snd (main h k p))) =
     (if 0 \<le> sint (openpt_ret k) then [openpt_ret k] else [])"
  by (simp add: main_calls open_fds_def)

subsection \<open>Order of the handshake\<close>

text \<open>
  C1. On every run the PTY handshake is performed in this order: \<^verbatim>\<open>posix_openpt\<close>, then
  \<^verbatim>\<open>grantpt\<close>, then \<^verbatim>\<open>unlockpt\<close>, and only then \<^verbatim>\<open>ptsname\<close>; no step is skipped and none
  comes before an earlier one.
\<close>

theorem handshake_order:
  "pty_steps (calls (snd (main h k p))) =
     [''posix_openpt'', ''grantpt'', ''unlockpt'', ''ptsname'']"
  by (simp add: main_calls pty_steps_def)

subsection \<open>Failure of the grant or unlock step\<close>

text \<open>
  C2, as stated: when \<^verbatim>\<open>grantpt\<close> or \<^verbatim>\<open>unlockpt\<close> fails, the master descriptor is closed and an
  error is returned, and the slave path is not resolved. This fails on the run where
  \<^verbatim>\<open>grantpt\<close> returns \<open>-1\<close>: descriptor 3 stays open, no \<^verbatim>\<open>close\<close> is issued, the exit status
  is 0 and the slave path is printed.
\<close>

theorem grant_failure_counterexample:
  "grantpt_ret run_grant_fails \<noteq> 0 \<and>
   open_fds run_grant_fails (calls (snd (main linux_fcntl run_grant_fails proc0))) = [3] \<and>
   filter is_close (calls (snd (main linux_fcntl run_grant_fails proc0))) = [] \<and>
   fst (main linux_fcntl run_grant_fails proc0) = Exited 0 \<and>
   stdout (snd (main linux_fcntl run_grant_fails proc0)) = ''/dev/pts/0'' @ [CHR 0x0A]"
  by (simp add: main_calls main_outcome main_stdout open_fds_def run_grant_fails_def)

text \<open>
  C2, amended: when \<^verbatim>\<open>grantpt\<close> or \<^verbatim>\<open>unlockpt\<close> fails, the failure is ignored. The run is the
  very run in which both succeed (same calls, same output, same outcome): no \<^verbatim>\<open>close\<close> is
  issued, a descriptor that \<^verbatim>\<open>posix_openpt\<close> opened stays open, and \<^verbatim>\<open>ptsname\<close> is still called
  on the descriptor. When \<^verbatim>\<open>ptsname\<close> returns a path, that path is printed and the exit
  status is 0.
\<close>

theorem grant_unlock_failure_ignored:
  assumes "grantpt_ret k \<noteq> 0 \<or> unlockpt_ret k \<noteq> 0"
  shows "main h k p = main h (k\<lparr>grantpt_ret := 0, unlockpt_ret := 0\<rparr>) p \<and>
         filter is_close (calls (snd (main h k p))) = [] \<and>
         open_fds k (calls (snd (main h k p))) =
           (if 0 \<le> sint (openpt_ret k) then [openpt_ret k] else []) \<and>
         ptsname_args (calls (snd (main h k p))) = [openpt_ret k] \<and>
         (\<forall>path. ptsname_ret k = Some path \<longrightarrow>
            fst (main h k p) = Exited 0 \<and>
            stdout (snd (main h k p)) = path @ [CHR 0x0A])"
proof -
  have same: "main h k p = main h (k\<lparr>grantpt_ret := 0, unlockpt_ret := 0\<rparr>) p"
    by (rule main_cong) simp_all
  have no_close: "filter is_close (calls (snd (main h k p))) = []"
    by (simp add: main_calls)
  have resolved: "ptsname_args (calls (snd (main h k p))) = [openpt_ret k]"
    by (simp add: main_calls ptsname_args_def)
  have printed: "\<forall>path. ptsname_ret k = Some path \<longrightarrow>
      fst (main h k p) = Exited 0 \<and> stdout (snd (main h k p)) = path @ [CHR 0x0A]"
    by (simp add: main_outcome main_stdout)
  from same no_close main_open_fds resolved printed show ?thesis
    by blast
qed

theorem grant_unlock_failure_ignored_witness:
  "grantpt_ret run_grant_fails \<noteq> 0 \<and>
   main linux_fcntl run_grant_fails proc0 = main linux_fcntl run_ok proc0 \<and>
   filter is_close (calls (snd (main linux_fcntl run_grant_fails proc0))) = [] \<and>
   open_fds run_grant_fails (calls (snd (main linux_fcntl run_grant_fails proc0))) = [3] \<and>
   ptsname_args (calls (snd (main linux_fcntl run_grant_fails proc0))) = [3] \<and>
   ptsname_ret run_grant_fails = Some ''/dev/pts/0'' \<and>
   fst (main linux_fcntl run_grant_fails proc0) = Exited 0 \<and>
   stdout (snd (main linux_fcntl run_grant_fails proc0)) = ''/dev/pts/0'' @ [CHR 0x0A]"
proof -
  have fails: "grantpt_ret run_grant_fails \<noteq> 0"
    by (simp add: run_grant_fails_def)
  have repaired: "run_grant_fails\<lparr>grantpt_ret := 0, unlockpt_ret := 0\<rparr> = run_ok"
    by (simp add: run_grant_fails_def run_ok_def)
  have fd: "openpt_ret run_grant_fails = 3"
    by (simp add: run_grant_fails_def)
  have open3: "(if 0 \<le> sint (3::c_int) then [3::c_int] else []) = [3]"
    by simp
  have path: "ptsname_ret run_grant_fails = Some ''/dev/pts/0''"
    by (simp add: run_grant_fails_def)
  from fails have "grantpt_ret run_grant_fails \<noteq> 0 \<or> unlockpt_ret run_grant_fails \<noteq> 0" ..
  from grant_unlock_failure_ignored [OF this, of linux_fcntl proc0] fails path
  show ?thesis
    unfolding repaired fd open3 by blast
qed

subsection \<open>Open-mode flags\<close>

text \<open>
  C3, as stated: the flag argument of \<^verbatim>\<open>posix_openpt\<close> includes both \<^verbatim>\<open>O_RDWR\<close> and
  \<^verbatim>\<open>O_NONBLOCK\<close>. On Linux the one flag argument passed is \<^verbatim>\<open>O_RDWR\<close>, which does not
  include \<^verbatim>\<open>O_NONBLOCK\<close>.
\<close>

theorem nonblock_flag_counterexample:
  "openpt_flags (calls (snd (main linux_fcntl run_ok proc0))) = [O_RDWR linux_fcntl] \<and>
   \<not> has_flag (O_RDWR linux_fcntl) (O_NONBLOCK linux_fcntl)"
  by (simp add: main_calls openpt_flags_def has_flag_def linux_fcntl_def)

text \<open>
  C3, amended: the master is requested read-write only. On every allocation the flag
  argument passed to \<^verbatim>\<open>posix_openpt\<close> is exactly \<^verbatim>\<open>O_RDWR\<close>; it includes \<^verbatim>\<open>O_RDWR\<close> and, on a
  platform where \<^verbatim>\<open>O_NONBLOCK\<close> is a non-zero flag that shares no bit with \<^verbatim>\<open>O_RDWR\<close>, it does
  not include \<^verbatim>\<open>O_NONBLOCK\<close>.
\<close>

theorem openpt_flag_is_rdwr:
  assumes "O_NONBLOCK h \<noteq> 0" and "O_RDWR h AND O_NONBLOCK h = 0"
  shows "openpt_flags (calls (snd (main h k p))) = [O_RDWR h] \<and>
         has_flag (O_RDWR h) (O_RDWR h) \<and>
         \<not> has_flag (O_RDWR h) (O_NONBLOCK h)"
  using assms by (auto simp add: main_calls openpt_flags_def has_flag_def)

theorem openpt_flag_is_rdwr_witness:
  "O_NONBLOCK darwin_fcntl \<noteq> 0 \<and> O_RDWR darwin_fcntl AND O_NONBLOCK darwin_fcntl = 0 \<and>
   openpt_flags (calls (snd (main darwin_fcntl run_ok proc0))) = [2] \<and>
   has_flag 2 (O_RDWR darwin_fcntl) \<and>
   \<not> has_flag 2 (O_NONBLOCK darwin_fcntl)"
  using openpt_flag_is_rdwr [where h = darwin_fcntl and k = run_ok and p = proc0]
  by (simp add: darwin_fcntl_def)

subsection \<open>Descriptors left open\<close>

text \<open>
  C4, as stated: the count of open master descriptors returns to its baseline, every
  master descriptor opened by the program being closed before it finishes. On the run
  where everything succeeds no descriptor is open at the start and descriptor 3 is open
  when \<^verbatim>\<open>main\<close> finishes.
\<close>

theorem descriptor_left_open_counterexample:
  "open_fds run_ok (calls start) = [] \<and>
   open_fds run_ok (calls (snd (main linux_fcntl run_ok proc0))) = [3]"
  by (simp add: main_calls open_fds_def run_ok_def start_def)

text \<open>
  C4, amended: the program has no teardown. \<^verbatim>\<open>main\<close> issues no \<^verbatim>\<open>close\<close>, so on every run where
  \<^verbatim>\<open>posix_openpt\<close> succeeds the master descriptor it returned is still open when \<^verbatim>\<open>main\<close>
  finishes.
\<close>

theorem master_never_closed:
  assumes "0 \<le> sint (openpt_ret k)"
  shows "filter is_close (calls (snd (main h k p))) = [] \<and>
         open_fds k (calls (snd (main h k p))) = [openpt_ret k]"
  using assms by (simp add: main_open_fds) (simp add: main_calls)

theorem master_never_closed_witness:
  "0 \<le> sint (openpt_ret run_ok) \<and>
   filter is_close (calls (snd (main linux_fcntl run_ok proc0))) = [] \<and>
   open_fds run_ok (calls (snd (main linux_fcntl run_ok proc0))) = [3]"
  using master_never_closed [where k = run_ok and h = linux_fcntl and p = proc0]
  by (simp add: run_ok_def)

subsection \<open>The descriptor whose slave path is resolved\<close>

text \<open>
  C5. On every run \<^verbatim>\<open>ptsname\<close> is applied, once, to exactly the descriptor value that
  \<^verbatim>\<open>posix_openpt\<close> returned. Before the path is resolved that descriptor is not exchanged
  for another one: there is a single \<^verbatim>\<open>posix_openpt\<close>, no \<^verbatim>\<open>close\<close>, and the calls that come
  before \<^verbatim>\<open>ptsname\<close> are the open, the grant and the unlock, on that same value.
\<close>

theorem ptsname_on_opened_descriptor:
  "ptsname_args (calls (snd (main h k p))) = [openpt_ret k] \<and>
   length (openpt_flags (calls (snd (main h k p)))) = 1 \<and>
   filter is_close (calls (snd (main h k p))) = [] \<and>
   takeWhile (\<lambda>c. ptsname_arg c = None) (calls (snd (main h k p))) =
     [Posix_openpt (O_RDWR h), Grantpt (openpt_ret k), Unlockpt (openpt_ret k)]"
  by (simp add: main_calls ptsname_args_def openpt_flags_def)

subsection \<open>Standard output\<close>

text \<open>
  C6. On a run in which \<^verbatim>\<open>posix_openpt\<close>, \<^verbatim>\<open>grantpt\<close> and \<^verbatim>\<open>unlockpt\<close> succeed and \<^verbatim>\<open>ptsname\<close>
  returns a path, the whole of standard output is that path followed by one newline.
\<close>

theorem stdout_is_slave_path:
  assumes "0 \<le> sint (openpt_ret k)" and "grantpt_ret k = 0" and "unlockpt_ret k = 0"
    and "ptsname_ret k = Some path"
  shows "stdout (snd (main h k p)) = path @ [CHR 0x0A]"
  using assms by (simp add: main_stdout)

theorem stdout_is_slave_path_witness:
  "0 \<le> sint (openpt_ret run_ok) \<and> grantpt_ret run_ok = 0 \<and> unlockpt_ret run_ok = 0 \<and>
   ptsname_ret run_ok = Some ''/dev/pts/0'' \<and>
   stdout (snd (main linux_fcntl run_ok proc0)) = ''/dev/pts/0'' @ [CHR 0x0A]"
  using stdout_is_slave_path
    [where k = run_ok and path = "''/dev/pts/0''" and h = linux_fcntl and p = proc0]
  by (simp add: run_ok_def)

subsection \<open>Failure of the allocation itself\<close>



subsection \<open>No error checking\<close>

text \<open>
  C8. For every return value of \<^verbatim>\<open>posix_openpt\<close> the calls that follow it are \<^verbatim>\<open>grantpt\<close>,
  \<^verbatim>\<open>unlockpt\<close> and \<^verbatim>\<open>ptsname\<close> on that value, and \<^verbatim>\<open>printf\<close> on what \<^verbatim>\<open>ptsname\<close> returned. In
  particular, when \<^verbatim>\<open>posix_openpt\<close> returns \<open>-1\<close> and \<^verbatim>\<open>ptsname\<close> returns \<^verbatim>\<open>NULL\<close>, the three
  calls are made on \<open>-1\<close> and \<^verbatim>\<open>NULL\<close> is passed to \<^verbatim>\<open>printf\<close>.
\<close>

theorem no_error_checking:
  "drop 1 (calls (snd (main h k p))) =
     [Grantpt (openpt_ret k), Unlockpt (openpt_ret k), Ptsname (openpt_ret k),
      Printf fmt_s_nl [ptsname_ret k]] \<and>
   drop 1 (calls (snd (main h (k\<lparr>openpt_ret := - 1, ptsname_ret := None\<rparr>) p))) =
     [Grantpt (- 1), Unlockpt (- 1), Ptsname (- 1), Printf fmt_s_nl [None]]"
  by (simp add: main_calls)

subsection \<open>Exit status\<close>

text \<open>
  C9, as stated: \<^verbatim>\<open>main\<close> terminates with exit status 0 for every outcome of the four
  calls. On the run where \<^verbatim>\<open>posix_openpt\<close> fails and \<^verbatim>\<open>ptsname\<close> returns \<^verbatim>\<open>NULL\<close>, the \<^verbatim>\<open>NULL\<close> is
  the argument of \<^verbatim>\<open>%s\<close>: the behaviour is undefined, not an exit with status 0.
\<close>

theorem exit_status_counterexample:
  "fst (main linux_fcntl run_open_fails proc0) = Undefined \<and>
   fst (main linux_fcntl run_open_fails proc0) \<noteq> Exited 0"
  by (simp add: main_outcome run_open_fails_def)

text \<open>
  C9, amended: whenever \<^verbatim>\<open>ptsname\<close> returns a string, \<^verbatim>\<open>main\<close> terminates with exit status 0,
  whatever \<^verbatim>\<open>posix_openpt\<close>, \<^verbatim>\<open>grantpt\<close> and \<^verbatim>\<open>unlockpt\<close> returned; no failure of theirs is
  reflected in the exit status.
\<close>

theorem exit_zero_when_path_resolved:
  assumes "ptsname_ret k = Some path"
  shows "fst (main h k p) = Exited 0"
  using assms by (simp add: main_outcome)

theorem exit_zero_when_path_resolved_witness:
  "ptsname_ret run_grant_fails = Some ''/dev/pts/0'' \<and>
   fst (main linux_fcntl run_grant_fails proc0) = Exited 0"
  using exit_zero_when_path_resolved
    [where k = run_grant_fails and path = "''/dev/pts/0''" and h = linux_fcntl and p = proc0]
  by (simp add: run_grant_fails_def)

subsection \<open>Determinism in the answers of the operating system\<close>

text \<open>
  C10. The calls \<^verbatim>\<open>main\<close> issues, the bytes it prints and the way it ends are a function of
  the values returned by \<^verbatim>\<open>posix_openpt\<close> and \<^verbatim>\<open>ptsname\<close> alone: two runs that get the same two
  values are the same run, whatever their command-line arguments, environment and
  standard input, and whatever \<^verbatim>\<open>grantpt\<close> and \<^verbatim>\<open>unlockpt\<close> returned.
\<close>

theorem deterministic_in_os_answers:
  assumes "openpt_ret k = openpt_ret k'" and "ptsname_ret k = ptsname_ret k'"
  shows "calls (snd (main h k p)) = calls (snd (main h k' p')) \<and>
         stdout (snd (main h k p)) = stdout (snd (main h k' p')) \<and>
         fst (main h k p) = fst (main h k' p')"
  using main_cong [OF assms, of h p p'] by simp

theorem deterministic_in_os_answers_witness:
  "openpt_ret run_ok = openpt_ret run_grant_fails \<and>
   ptsname_ret run_ok = ptsname_ret run_grant_fails \<and>
   calls (snd (main linux_fcntl run_ok proc0)) =
     calls (snd (main linux_fcntl run_grant_fails proc1)) \<and>
   stdout (snd (main linux_fcntl run_ok proc0)) =
     stdout (snd (main linux_fcntl run_grant_fails proc1)) \<and>
   fst (main linux_fcntl run_ok proc0) = fst (main linux_fcntl run_grant_fails proc1)"
  using deterministic_in_os_answers
    [where k = run_ok and k' = run_grant_fails and h = linux_fcntl and p = proc0 and p' = proc1]
  by (simp add: run_ok_def run_grant_fails_def)

end
